theory Spec2Isabelle
  imports Main
begin

section \<open>The file-backed SYSLOG channel: drivers/syslog/syslog_filechannel.c\<close>

subsection \<open>The mounted file system and the outcomes of the calls\<close>

text \<open>
  A C string is a \<open>string\<close>. The mounted file system is a map from the paths of its regular
  files to their contents; a path outside its domain does not exist.
\<close>

type_synonym path = string
type_synonym contents = string
type_synonym vfs = "path \<rightharpoonup> contents"

text \<open>
  The source calls into the C library, the file system and the SYSLOG subsystem, and each
  of these calls can fail for reasons the source does not see (no descriptor left, an I/O
  error, no memory, a full channel table). One field per call says whether it fails in the
  run at hand. \<open>stack_garbage\<close> is the value that the automatic variable \<open>f_stat.st_size\<close>
  of \<open>log_rotate\<close> holds before anything is stored in it: the source declares
  \<open>struct stat f_stat\<close> without an initialiser.
\<close>

record env =
  open_fails :: bool
  fstat_fails :: bool
  stack_garbage :: int
  malloc_fails :: bool
  remove_fails :: bool
  rename_fails :: bool
  dev_init_fails :: bool
  channel_fails :: bool

text \<open>
  Modelled from the spec: \<open>open(log_file, O_RDONLY)\<close> is not in the source file. The spec
  speaks of a "failure to open" the file. Without \<open>O_CREAT\<close> the call fails on a path
  that does not exist, and the environment can make it fail besides. The descriptor is
  modelled by the path it refers to; \<open>None\<close> is the source's \<open>fd < 0\<close>.
\<close>

definition sys_open_rdonly :: "env \<Rightarrow> vfs \<Rightarrow> path \<Rightarrow> path option" where
  "sys_open_rdonly e fs p = (if open_fails e \<or> fs p = None then None else Some p)"

text \<open>
  Modelled from the spec: \<open>fstat(fd, &f_stat)\<close> is not in the source file. The spec says
  the rotation has to "inspect its size" and speaks of a "failure to stat". On success the
  call stores the size of the file in \<open>st_size\<close>, here the length of its contents; on
  failure (\<open>None\<close>) it stores nothing. File sizes are taken to fit \<open>off_t\<close>.
\<close>

definition sys_fstat_size :: "env \<Rightarrow> vfs \<Rightarrow> path \<Rightarrow> int option" where
  "sys_fstat_size e fs fd =
     (if fstat_fails e then None
      else case fs fd of None \<Rightarrow> None | Some c \<Rightarrow> Some (int (length c)))"

text \<open>
  Modelled from the spec: \<open>access(backup_file, F_OK) == 0\<close> is not in the source file. It
  tells whether there is a "pre-existing backup at that name".
\<close>

definition sys_access_ok :: "vfs \<Rightarrow> path \<Rightarrow> bool" where
  "sys_access_ok fs p = (fs p \<noteq> None)"

text \<open>
  Modelled from the spec: \<open>remove(backup_file)\<close> is not in the source file. The spec has the
  rotation "delete any pre-existing backup at that name". A call that fails leaves the file
  system as it is. The source drops the value the call returns, so only the file system
  is returned here.
\<close>

definition sys_remove :: "env \<Rightarrow> vfs \<Rightarrow> path \<Rightarrow> vfs" where
  "sys_remove e fs p = (if remove_fails e then fs else fs(p := None))"

text \<open>
  Modelled from the spec: \<open>rename(log_file, backup_file)\<close> is not in the source file. The
  spec says that the rotation "renames the file to <path>.0, overwriting any prior backup"
  and so frees the original path. A call that fails, or whose old path does not exist,
  leaves the file system as it is. The source drops the value the call returns.
\<close>

definition sys_rename :: "env \<Rightarrow> vfs \<Rightarrow> path \<Rightarrow> path \<Rightarrow> vfs" where
  "sys_rename e fs old new =
     (if rename_fails e \<or> fs old = None then fs
      else (fs(old := None))(new := fs old))"

subsection \<open>log\_rotate\<close>

text \<open>
  \<^verbatim>\<open>sprintf(backup_file, "%s.0", log_file)\<close> into a buffer of
  \<open>strlen(log_file) + 3\<close> bytes: the name, the two characters and the terminator fit.
\<close>

definition backup_name :: "path \<Rightarrow> path" where
  "backup_name log_file = log_file @ ''.0''"

text \<open>
  The function returns \<open>void\<close>: all it hands back is the file system it leaves behind.
  \<open>limit\<close> is \<open>CONFIG_SYSLOG_FILE_SIZE_LIMIT\<close>, a constant of the build configuration.
  The source does not look at what \<open>fstat\<close> returns: when the call has failed, \<open>size\<close> is
  read from the \<open>f_stat\<close> that nothing was stored in. \<open>close(fd)\<close> and
  \<open>free(backup_file)\<close> change nothing that the file system holds.
\<close>

definition log_rotate :: "int \<Rightarrow> env \<Rightarrow> vfs \<Rightarrow> path \<Rightarrow> vfs" where
  "log_rotate limit e fs log_file =
     (case sys_open_rdonly e fs log_file of
        None \<Rightarrow> fs
      | Some fd \<Rightarrow>
          (let size = (case sys_fstat_size e fs fd of
                         Some n \<Rightarrow> n
                       | None \<Rightarrow> stack_garbage e)
           in if size < limit then fs
              else if malloc_fails e then fs
              else
                (let backup_file = backup_name log_file;
                     fs1 = (if sys_access_ok fs backup_file
                            then sys_remove e fs backup_file else fs)
                 in sys_rename e fs1 log_file backup_file)))"

subsection \<open>The state that syslog\_file\_channel works on\<close>

text \<open>
  A channel handle (\<open>FAR struct syslog_channel_s *\<close>) is modelled by the identity of the
  channel object it points to: the serial number of the \<open>syslog_dev_initialize\<close> call
  that made the object. \<open>None\<close> is \<open>NULL\<close>.
\<close>

type_synonym handle = nat

text \<open>
  The flag and mode macros come from \<open>fcntl.h\<close> and \<open>sys/stat.h\<close>, which are not among
  the sources. Each macro is a constructor, and the bitwise or of macros is the set of
  the macros it combines.
\<close>

datatype oflag = O_RDONLY | O_WRONLY | O_CREAT | O_EXCL | O_APPEND | O_TRUNC

datatype mode_bit =
    S_IRUSR | S_IWUSR | S_IXUSR
  | S_IRGRP | S_IWGRP | S_IXGRP
  | S_IROTH | S_IWOTH | S_IXOTH

definition OPEN_FLAGS :: "oflag set" where
  "OPEN_FLAGS = {O_WRONLY} \<union> {O_CREAT} \<union> {O_APPEND}"

definition OPEN_MODE :: "mode_bit set" where
  "OPEN_MODE = {S_IROTH} \<union> {S_IRGRP} \<union> {S_IRUSR} \<union> {S_IWUSR}"

text \<open>
  What the function does that its caller and the other tasks can observe, in the order it
  does it: the calls into the scheduler and into the SYSLOG subsystem with their
  arguments and results, and the stores to \<open>g_syslog_file_channel\<close>.
\<close>

datatype event =
    Sched_lock
  | Sched_unlock
  | Dev_uninitialize handle
  | Dev_initialize path "oflag set" "mode_bit set" "handle option"
  | Channel handle bool
  | Store_g "handle option"

text \<open>
  \<open>g_syslog_file_channel\<close> is the file's static variable. \<open>lockcount\<close> is the number of
  \<open>sched_lock\<close> calls of the running task that no \<open>sched_unlock\<close> has matched yet.
  \<open>live\<close> holds the handles that \<open>syslog_dev_initialize\<close> has made and
  \<open>syslog_dev_uninitialize\<close> has not torn down. \<open>next_handle\<close> is the serial number of
  the next channel object.
\<close>

record kernel =
  g_syslog_file_channel :: "handle option"
  lockcount :: nat
  files :: vfs
  live :: "handle set"
  next_handle :: handle
  trace :: "event list"

text \<open>The two options of the build configuration that the source file reads.\<close>

record config =
  CONFIG_SYSLOG_FILE_ROTATE :: bool
  CONFIG_SYSLOG_FILE_SIZE_LIMIT :: int

text \<open>
  Modelled from the spec: \<open>sched_lock\<close> and \<open>sched_unlock\<close> are not in the source file. The
  spec calls them "an advisory lock against concurrent task switching": a count of the
  locks held, one up and one down.
\<close>

definition sched_lock :: "kernel \<Rightarrow> kernel" where
  "sched_lock s = s\<lparr>lockcount := Suc (lockcount s), trace := trace s @ [Sched_lock]\<rparr>"

definition sched_unlock :: "kernel \<Rightarrow> kernel" where
  "sched_unlock s = s\<lparr>lockcount := lockcount s - 1, trace := trace s @ [Sched_unlock]\<rparr>"

text \<open>
  Modelled from the spec: \<open>syslog_dev_uninitialize\<close> is not in the source file. The spec
  names it "uninitialize file device(handle)" and has it "tear down" the channel: the
  handle is live no longer.
\<close>

definition syslog_dev_uninitialize :: "handle \<Rightarrow> kernel \<Rightarrow> kernel" where
  "syslog_dev_uninitialize h s =
     s\<lparr>live := live s - {h}, trace := trace s @ [Dev_uninitialize h]\<rparr>"

text \<open>
  Modelled from the spec: \<open>syslog_dev_initialize\<close> is not in the source file. The spec
  names it "initialize file device(path, open flags, mode)"; it is to "open/create the
  target file", "producing a new channel handle", or no handle when it fails. A call that
  succeeds makes a new channel object, and with \<open>O_CREAT\<close> a missing file comes into
  being, empty.
\<close>

definition syslog_dev_initialize ::
  "env \<Rightarrow> path \<Rightarrow> oflag set \<Rightarrow> mode_bit set \<Rightarrow> kernel \<Rightarrow> handle option \<times> kernel" where
  "syslog_dev_initialize e devpath oflags mode s =
     (if dev_init_fails e
      then (None, s\<lparr>trace := trace s @ [Dev_initialize devpath oflags mode None]\<rparr>)
      else
        (let h = next_handle s
         in (Some h,
             s\<lparr>files := (if O_CREAT \<in> oflags \<and> files s devpath = None
                          then (files s)(devpath \<mapsto> []) else files s),
               live := insert h (live s),
               next_handle := Suc h,
               trace := trace s @ [Dev_initialize devpath oflags mode (Some h)]\<rparr>)))"

text \<open>
  Modelled from the spec: \<open>syslog_channel\<close> is not in the source file. The spec names it
  "set active channel(handle)", which is to "bind that handle as the active output
  channel for the logging subsystem" and can fail. The channel table of the subsystem is
  not part of this file; the call and its result (\<open>True\<close> for \<open>OK\<close>) are recorded.
\<close>

definition syslog_channel :: "env \<Rightarrow> handle \<Rightarrow> kernel \<Rightarrow> bool \<times> kernel" where
  "syslog_channel e h s =
     (\<not> channel_fails e, s\<lparr>trace := trace s @ [Channel h (\<not> channel_fails e)]\<rparr>)"

text \<open>An assignment to the static variable.\<close>

definition store_g :: "handle option \<Rightarrow> kernel \<Rightarrow> kernel" where
  "store_g v s = s\<lparr>g_syslog_file_channel := v, trace := trace s @ [Store_g v]\<rparr>"

subsection \<open>syslog\_file\_channel\<close>

text \<open>
  The statements of the source in their order. \<open>goto errout_with_lock\<close> skips the
  binding when the new handle is \<open>NULL\<close>; both ways end in \<open>sched_unlock\<close> and the return
  of the static variable. The call of \<open>log_rotate\<close> is compiled in under
  \<open>CONFIG_SYSLOG_FILE_ROTATE\<close>.
\<close>

definition syslog_file_channel ::
  "config \<Rightarrow> env \<Rightarrow> path \<Rightarrow> kernel \<Rightarrow> handle option \<times> kernel" where
  "syslog_file_channel cfg e devpath s0 =
     (let s1 = sched_lock s0;
          s2 = (case g_syslog_file_channel s1 of
                  None \<Rightarrow> s1
                | Some old \<Rightarrow> syslog_dev_uninitialize old s1);
          s3 = (if CONFIG_SYSLOG_FILE_ROTATE cfg
                then s2\<lparr>files :=
                          log_rotate (CONFIG_SYSLOG_FILE_SIZE_LIMIT cfg) e (files s2) devpath\<rparr>
                else s2);
          (r, s4) = syslog_dev_initialize e devpath OPEN_FLAGS OPEN_MODE s3;
          s5 = store_g r s4;
          s6 = (case g_syslog_file_channel s5 of
                  None \<Rightarrow> s5
                | Some h \<Rightarrow>
                    (let (ok, s') = syslog_channel e h s5
                     in if ok then s'
                        else store_g None (syslog_dev_uninitialize h s')));
          s7 = sched_unlock s6
      in (g_syslog_file_channel s7, s7))"

subsection \<open>Reading a trace\<close>

text \<open>
  \<open>stores_locked d evs\<close>: along \<open>evs\<close>, started with \<open>d\<close> locks held, every store to the
  static variable happens while at least one lock is held.
\<close>

fun stores_locked :: "nat \<Rightarrow> event list \<Rightarrow> bool" where
  "stores_locked d [] = True"
| "stores_locked d (Sched_lock # evs) = stores_locked (Suc d) evs"
| "stores_locked d (Sched_unlock # evs) = stores_locked (d - 1) evs"
| "stores_locked d (Store_g v # evs) = (0 < d \<and> stores_locked d evs)"
| "stores_locked d (Dev_uninitialize h # evs) = stores_locked d evs"
| "stores_locked d (Dev_initialize p f m r # evs) = stores_locked d evs"
| "stores_locked d (Channel h b # evs) = stores_locked d evs"

text \<open>\<open>last_store v evs\<close>: the value of the static variable after \<open>evs\<close>, when it was \<open>v\<close> before.\<close>

fun last_store :: "handle option \<Rightarrow> event list \<Rightarrow> handle option" where
  "last_store v [] = v"
| "last_store v (Store_g w # evs) = last_store w evs"
| "last_store v (Sched_lock # evs) = last_store v evs"
| "last_store v (Sched_unlock # evs) = last_store v evs"
| "last_store v (Dev_uninitialize h # evs) = last_store v evs"
| "last_store v (Dev_initialize p f m r # evs) = last_store v evs"
| "last_store v (Channel h b # evs) = last_store v evs"

fun is_dev_initialize :: "event \<Rightarrow> bool" where
  "is_dev_initialize (Dev_initialize p f m r) = True"
| "is_dev_initialize Sched_lock = False"
| "is_dev_initialize Sched_unlock = False"
| "is_dev_initialize (Dev_uninitialize h) = False"
| "is_dev_initialize (Channel h b) = False"
| "is_dev_initialize (Store_g v) = False"


text \<open>A run in which no call fails, and some files to run on.\<close>

definition env_ok :: env where
  "env_ok = \<lparr>open_fails = False, fstat_fails = False, stack_garbage = 0,
             malloc_fails = False, remove_fails = False, rename_fails = False,
             dev_init_fails = False, channel_fails = False\<rparr>"

definition fs_example :: vfs where
  "fs_example = [''/log'' \<mapsto> ''0123456789'', ''/log.0'' \<mapsto> ''old'']"

definition cfg_example :: config where
  "cfg_example = \<lparr>CONFIG_SYSLOG_FILE_ROTATE = True, CONFIG_SYSLOG_FILE_SIZE_LIMIT = 10\<rparr>"

text \<open>The state after boot: no file channel yet, no lock held, nothing recorded.\<close>

definition kernel_boot :: kernel where
  "kernel_boot = \<lparr>g_syslog_file_channel = None, lockcount = 0, files = fs_example,
                  live = {}, next_handle = 0, trace = []\<rparr>"

text \<open>The state after one call that went through: the first channel is installed.\<close>

definition kernel_once :: kernel where
  "kernel_once = snd (syslog_file_channel cfg_example env_ok ''/log'' kernel_boot)"

section \<open>Properties of log\_rotate\<close>

lemma log_rotate_open_failure:
  "sys_open_rdonly e fs p = None \<Longrightarrow> log_rotate limit e fs p = fs"
  by (simp add: log_rotate_def)

text \<open>
  C1. A log file at or above the size limit is rotated: when the calls that
  \<open>log_rotate\<close> makes succeed (the file is opened, \<open>fstat\<close> reports its size, the name
  buffer is allocated, the rename goes through), the file system it leaves is the one it
  found with the original path gone and the path with \<open>.0\<close> appended holding the prior
  contents of the log file. Whatever was stored under the backup name before is gone, and
  no other path is touched.
\<close>

theorem log_rotate_rotates:
  assumes "fs p = Some c" and "limit \<le> int (length c)"
    and "\<not> open_fails e" and "\<not> fstat_fails e"
    and "\<not> malloc_fails e" and "\<not> rename_fails e"
  shows "log_rotate limit e fs p = (fs(p := None))(p @ ''.0'' \<mapsto> c)
       \<and> log_rotate limit e fs p p = None
       \<and> log_rotate limit e fs p (p @ ''.0'') = Some c"
proof -
  have op: "sys_open_rdonly e fs p = Some p"
    using assms by (simp add: sys_open_rdonly_def)
  have st: "sys_fstat_size e fs p = Some (int (length c))"
    using assms by (simp add: sys_fstat_size_def)
  have ne: "p @ ''.0'' \<noteq> p" by simp
  have rm: "sys_remove e fs (p @ ''.0'') p = Some c"
    using assms ne by (simp add: sys_remove_def)
  have eq: "log_rotate limit e fs p = (fs(p := None))(p @ ''.0'' \<mapsto> c)"
  proof (cases "sys_access_ok fs (p @ ''.0'')")
    case True
    have "sys_rename e (sys_remove e fs (p @ ''.0'')) p (p @ ''.0'')
            = (fs(p := None))(p @ ''.0'' \<mapsto> c)"
      using assms rm by (auto simp: sys_rename_def sys_remove_def)
    with True assms op st show ?thesis
      by (simp add: log_rotate_def backup_name_def)
  next
    case False
    have "sys_rename e fs p (p @ ''.0'') = (fs(p := None))(p @ ''.0'' \<mapsto> c)"
      using assms by (simp add: sys_rename_def)
    with False assms op st show ?thesis
      by (simp add: log_rotate_def backup_name_def)
  qed
  show ?thesis
    using ne by (simp add: eq)
qed

theorem log_rotate_rotates_witness:
  "log_rotate 10 env_ok fs_example ''/log'' = [''/log.0'' \<mapsto> ''0123456789'']
   \<and> log_rotate 10 env_ok fs_example ''/log'' ''/log'' = None
   \<and> log_rotate 10 env_ok fs_example ''/log'' ''/log.0'' = Some ''0123456789''"
proof -
  have "fs_example ''/log'' = Some ''0123456789''"
    by (simp add: fs_example_def)
  moreover have "(10::int) \<le> int (length ''0123456789'')"
    by simp
  ultimately have
    "log_rotate 10 env_ok fs_example ''/log''
       = (fs_example(''/log'' := None))(''/log'' @ ''.0'' \<mapsto> ''0123456789'')
     \<and> log_rotate 10 env_ok fs_example ''/log'' ''/log'' = None
     \<and> log_rotate 10 env_ok fs_example ''/log'' (''/log'' @ ''.0'') = Some ''0123456789''"
    by (rule log_rotate_rotates) (simp_all add: env_ok_def)
  moreover have
    "(fs_example(''/log'' := None))(''/log'' @ ''.0'' \<mapsto> ''0123456789'')
       = [''/log.0'' \<mapsto> ''0123456789'']"
    by (auto simp: fs_example_def)
  ultimately show ?thesis by simp
qed

text \<open>
  When \<open>fstat\<close> reports the size of the file and that size is strictly below the limit,
  \<open>log_rotate\<close> returns the file system unchanged, whatever the later calls would have
  done.
\<close>

lemma log_rotate_below_limit_when_stat_ok:
  assumes "fs p = Some c" and "int (length c) < limit" and "\<not> fstat_fails e"
  shows "log_rotate limit e fs p = fs"
  using assms
  by (simp add: log_rotate_def sys_open_rdonly_def sys_fstat_size_def)

text \<open>
  C2. A log file whose size is strictly below the limit is to stay at its path, with no
  backup created, deleted or overwritten. The source does not keep to that when \<open>fstat\<close>
  fails: it never looks at what \<open>fstat\<close> returns, and compares the limit with the
  \<open>st_size\<close> that nothing was stored in. Here the log file has 10 bytes and the limit is
  4096; \<open>fstat\<close> fails while the stack holds 5000, and \<open>log_rotate\<close> moves the file to the
  backup name, where it replaces the backup that was there.
\<close>

theorem log_rotate_below_limit_fstat_failure:
  "fs_example ''/log'' = Some ''0123456789''
   \<and> int (length ''0123456789'') < 4096
   \<and> fs_example ''/log.0'' = Some ''old''
   \<and> log_rotate 4096 (env_ok\<lparr>fstat_fails := True, stack_garbage := 5000\<rparr>) fs_example
         ''/log'' = [''/log.0'' \<mapsto> ''0123456789'']
   \<and> log_rotate 4096 (env_ok\<lparr>fstat_fails := True, stack_garbage := 5000\<rparr>) fs_example
         ''/log'' ''/log'' = None
   \<and> log_rotate 4096 (env_ok\<lparr>fstat_fails := True, stack_garbage := 5000\<rparr>) fs_example
         ''/log'' \<noteq> fs_example"
proof -
  let ?e = "env_ok\<lparr>fstat_fails := True, stack_garbage := 5000\<rparr>"
  have r: "log_rotate 4096 ?e fs_example ''/log'' = [''/log.0'' \<mapsto> ''0123456789'']"
    by (auto simp: log_rotate_def sys_open_rdonly_def sys_fstat_size_def sys_access_ok_def
        sys_remove_def sys_rename_def backup_name_def env_ok_def fs_example_def)
  have "[''/log.0'' \<mapsto> ''0123456789''] ''/log'' \<noteq> fs_example ''/log''"
    by (simp add: fs_example_def)
  then have ne: "[''/log.0'' \<mapsto> ''0123456789''] \<noteq> fs_example"
    by metis
  show ?thesis
    using ne by (simp add: r) (simp add: fs_example_def)
qed

text \<open>
  C9. When the allocation of the backup name fails, the rotation is skipped: \<open>log_rotate\<close>
  returns the file system unchanged, whatever the size of the log file, so an oversized
  log file stays at its path. The function returns \<open>void\<close> and reports nothing.
\<close>

theorem log_rotate_malloc_failure:
  "malloc_fails e \<Longrightarrow> log_rotate limit e fs p = fs"
  by (simp add: log_rotate_def Let_def split: option.splits)

theorem log_rotate_malloc_failure_witness:
  "log_rotate 10 (env_ok\<lparr>malloc_fails := True\<rparr>) fs_example ''/log'' = fs_example
   \<and> fs_example ''/log'' = Some ''0123456789''
   \<and> 10 \<le> int (length ''0123456789'')"
proof -
  have "malloc_fails (env_ok\<lparr>malloc_fails := True\<rparr>)"
    by simp
  then have
    "log_rotate 10 (env_ok\<lparr>malloc_fails := True\<rparr>) fs_example ''/log'' = fs_example"
    by (rule log_rotate_malloc_failure)
  then show ?thesis by (simp add: fs_example_def)
qed

text \<open>
  C3. When the log file cannot be opened, \<open>log_rotate\<close> returns the file system unchanged
  (the lemma on the open failure above). When the file opens and \<open>fstat\<close> fails, the
  source goes on: it compares the size limit with the \<open>st_size\<close> that nothing was stored
  in. Here a file of 10 bytes, far below a limit of 4096, is rotated because \<open>fstat\<close>
  failed and the stack held 4096.
\<close>

theorem log_rotate_fstat_failure_rotates:
  "sys_open_rdonly (env_ok\<lparr>fstat_fails := True, stack_garbage := 4096\<rparr>)
      [''/log'' \<mapsto> ''0123456789''] ''/log'' = Some ''/log''
   \<and> sys_fstat_size (env_ok\<lparr>fstat_fails := True, stack_garbage := 4096\<rparr>)
      [''/log'' \<mapsto> ''0123456789''] ''/log'' = None
   \<and> log_rotate 4096 (env_ok\<lparr>fstat_fails := True, stack_garbage := 4096\<rparr>)
      [''/log'' \<mapsto> ''0123456789''] ''/log'' = [''/log.0'' \<mapsto> ''0123456789'']"
  by (auto simp: log_rotate_def sys_open_rdonly_def sys_fstat_size_def sys_access_ok_def
      sys_rename_def backup_name_def env_ok_def)

section \<open>Properties of syslog\_file\_channel\<close>

subsection \<open>What one call does to each part of the state\<close>

lemmas sfc_defs = syslog_file_channel_def sched_lock_def sched_unlock_def
  syslog_dev_uninitialize_def syslog_dev_initialize_def syslog_channel_def store_g_def

lemma sfc_trace:
  "trace (snd (syslog_file_channel cfg e devpath s)) =
     trace s @ [Sched_lock]
       @ (case g_syslog_file_channel s of None \<Rightarrow> [] | Some old \<Rightarrow> [Dev_uninitialize old])
       @ (if dev_init_fails e
          then [Dev_initialize devpath OPEN_FLAGS OPEN_MODE None, Store_g None]
          else [Dev_initialize devpath OPEN_FLAGS OPEN_MODE (Some (next_handle s)),
                Store_g (Some (next_handle s)),
                Channel (next_handle s) (\<not> channel_fails e)]
               @ (if channel_fails e
                  then [Dev_uninitialize (next_handle s), Store_g None] else []))
       @ [Sched_unlock]"
  by (simp add: sfc_defs Let_def split: option.splits)

lemma sfc_result:
  "fst (syslog_file_channel cfg e devpath s) =
     g_syslog_file_channel (snd (syslog_file_channel cfg e devpath s))"
  by (simp add: sfc_defs Let_def split: option.splits)

lemma sfc_g:
  "g_syslog_file_channel (snd (syslog_file_channel cfg e devpath s)) =
     (if dev_init_fails e \<or> channel_fails e then None else Some (next_handle s))"
  by (simp add: sfc_defs Let_def split: option.splits)

lemma sfc_live:
  "live (snd (syslog_file_channel cfg e devpath s)) =
     (if dev_init_fails e then live s - set_option (g_syslog_file_channel s)
      else if channel_fails e
      then live s - set_option (g_syslog_file_channel s) - {next_handle s}
      else insert (next_handle s) (live s - set_option (g_syslog_file_channel s)))"
  by (auto simp add: sfc_defs Let_def split: option.splits)

lemma sfc_lockcount:
  "lockcount (snd (syslog_file_channel cfg e devpath s)) = lockcount s"
  by (simp add: sfc_defs Let_def split: option.splits)

lemma sfc_next_handle:
  "next_handle (snd (syslog_file_channel cfg e devpath s)) =
     (if dev_init_fails e then next_handle s else Suc (next_handle s))"
  by (simp add: sfc_defs Let_def split: option.splits)

lemma kernel_once_g: "g_syslog_file_channel kernel_once = Some 0"
  by (simp add: kernel_once_def sfc_g env_ok_def kernel_boot_def)

lemma kernel_once_next: "next_handle kernel_once = 1"
  by (simp add: kernel_once_def sfc_next_handle env_ok_def kernel_boot_def)

lemma kernel_once_lockcount: "lockcount kernel_once = 0"
  by (simp add: kernel_once_def sfc_lockcount kernel_boot_def)

subsection \<open>Installing the channel\<close>

text \<open>
  C4. When a handle is recorded in \<open>g_syslog_file_channel\<close> on entry, the first thing the
  call does under the lock is to pass that handle to \<open>syslog_dev_uninitialize\<close>; only then
  is the new handle made by \<open>syslog_dev_initialize\<close> and stored in the variable. The prior
  handle is not live when the call returns. (A recorded handle was made by an earlier call,
  so it is not the serial number of the object the next call makes.)
\<close>

theorem syslog_file_channel_tears_down_prior:
  assumes "g_syslog_file_channel s = Some old"
  shows "(\<exists>r rest. trace (snd (syslog_file_channel cfg e devpath s)) =
            trace s @ [Sched_lock, Dev_uninitialize old,
                       Dev_initialize devpath OPEN_FLAGS OPEN_MODE r, Store_g r] @ rest)
       \<and> (old \<noteq> next_handle s \<longrightarrow> old \<notin> live (snd (syslog_file_channel cfg e devpath s)))"
proof
  show "\<exists>r rest. trace (snd (syslog_file_channel cfg e devpath s)) =
            trace s @ [Sched_lock, Dev_uninitialize old,
                       Dev_initialize devpath OPEN_FLAGS OPEN_MODE r, Store_g r] @ rest"
    using assms by (cases "dev_init_fails e") (simp_all add: sfc_trace)
  show "old \<noteq> next_handle s \<longrightarrow> old \<notin> live (snd (syslog_file_channel cfg e devpath s))"
    using assms by (simp add: sfc_live)
qed

text \<open>The second call, made after a first one that installed handle 0.\<close>

theorem syslog_file_channel_tears_down_prior_witness:
  "g_syslog_file_channel kernel_once = Some 0
   \<and> (\<exists>r rest. trace (snd (syslog_file_channel cfg_example env_ok ''/log'' kernel_once)) =
            trace kernel_once @ [Sched_lock, Dev_uninitialize 0,
                       Dev_initialize ''/log'' OPEN_FLAGS OPEN_MODE r, Store_g r] @ rest)
   \<and> 0 \<notin> live (snd (syslog_file_channel cfg_example env_ok ''/log'' kernel_once))"
  using syslog_file_channel_tears_down_prior [OF kernel_once_g, of cfg_example env_ok "''/log''"]
  by (simp add: kernel_once_g kernel_once_next)






text \<open>
  C6. On every path through the function (the new channel installed, no handle from
  \<open>syslog_dev_initialize\<close>, the binding failed) the events of the call begin with the one
  \<open>sched_lock\<close> and end with the one \<open>sched_unlock\<close>, with neither of the two in between,
  and the count of locks held is on return what it was on entry.
\<close>

theorem syslog_file_channel_lock_balanced:
  "\<exists>mid. trace (snd (syslog_file_channel cfg e devpath s)) =
            trace s @ [Sched_lock] @ mid @ [Sched_unlock]
        \<and> Sched_lock \<notin> set mid \<and> Sched_unlock \<notin> set mid
        \<and> lockcount (snd (syslog_file_channel cfg e devpath s)) = lockcount s"
  by (simp add: sfc_trace sfc_lockcount split: option.splits)

theorem syslog_file_channel_lock_balanced_witness:
  "\<exists>mid. trace (snd (syslog_file_channel cfg_example (env_ok\<lparr>dev_init_fails := True\<rparr>)
                ''/log'' kernel_once)) =
            trace kernel_once @ [Sched_lock] @ mid @ [Sched_unlock]
        \<and> Sched_lock \<notin> set mid \<and> Sched_unlock \<notin> set mid
        \<and> lockcount (snd (syslog_file_channel cfg_example (env_ok\<lparr>dev_init_fails := True\<rparr>)
                ''/log'' kernel_once)) = 0"
  using syslog_file_channel_lock_balanced
    [of cfg_example "env_ok\<lparr>dev_init_fails := True\<rparr>" "''/log''" kernel_once]
  by (simp add: kernel_once_lockcount)

text \<open>
  C7. Every call makes exactly one call of \<open>syslog_dev_initialize\<close>, on the path it was
  given, with the flags \<open>O_WRONLY | O_CREAT | O_APPEND\<close> and nothing else, and with the mode
  \<open>S_IRUSR | S_IWUSR | S_IRGRP | S_IROTH\<close> and nothing else.
\<close>

theorem syslog_file_channel_open_arguments:
  "\<exists>evs r. trace (snd (syslog_file_channel cfg e devpath s)) = trace s @ evs
        \<and> filter is_dev_initialize evs =
            [Dev_initialize devpath {O_WRONLY, O_CREAT, O_APPEND}
               {S_IRUSR, S_IWUSR, S_IRGRP, S_IROTH} r]"
  by (auto simp add: sfc_trace OPEN_FLAGS_def OPEN_MODE_def split: option.splits)

theorem syslog_file_channel_open_arguments_witness:
  "\<exists>evs r. trace (snd (syslog_file_channel cfg_example env_ok ''/log'' kernel_boot)) =
            trace kernel_boot @ evs
        \<and> filter is_dev_initialize evs =
            [Dev_initialize ''/log'' {O_WRONLY, O_CREAT, O_APPEND}
               {S_IRUSR, S_IWUSR, S_IRGRP, S_IROTH} r]"
  using syslog_file_channel_open_arguments [of cfg_example env_ok "''/log''" kernel_boot]
  by simp

text \<open>
  C8. Along the events of a call, every store to \<open>g_syslog_file_channel\<close> happens while
  the lock taken by the \<open>sched_lock\<close> of this call is held, also when the caller held no
  lock on entry; and the value of the variable on return is the one its last recorded
  store wrote, so the variable changes through these stores only. \<open>log_rotate\<close>, the other
  function of the file, works on the file system alone.
\<close>

theorem syslog_file_channel_stores_locked:
  "\<exists>evs. trace (snd (syslog_file_channel cfg e devpath s)) = trace s @ evs
        \<and> stores_locked 0 evs
        \<and> g_syslog_file_channel (snd (syslog_file_channel cfg e devpath s)) =
            last_store (g_syslog_file_channel s) evs"
  by (simp add: sfc_trace sfc_g split: option.splits)

theorem syslog_file_channel_stores_locked_witness:
  "\<exists>evs. trace (snd (syslog_file_channel cfg_example (env_ok\<lparr>channel_fails := True\<rparr>)
                ''/log'' kernel_boot)) = trace kernel_boot @ evs
        \<and> stores_locked 0 evs
        \<and> g_syslog_file_channel
            (snd (syslog_file_channel cfg_example (env_ok\<lparr>channel_fails := True\<rparr>)
                ''/log'' kernel_boot)) = last_store None evs"
  using syslog_file_channel_stores_locked
    [of cfg_example "env_ok\<lparr>channel_fails := True\<rparr>" "''/log''" kernel_boot]
  by (simp add: kernel_boot_def)

text \<open>
  C10. The pointer the call returns is the value of \<open>g_syslog_file_channel\<close> on return.
  It is \<open>NULL\<close>, or it is a handle that \<open>syslog_dev_initialize\<close> made in this call, that
  \<open>syslog_channel\<close> accepted in this call, and that is live on return.
\<close>

theorem syslog_file_channel_result:
  "fst (syslog_file_channel cfg e devpath s) =
     g_syslog_file_channel (snd (syslog_file_channel cfg e devpath s))
   \<and> (fst (syslog_file_channel cfg e devpath s) = None
      \<or> (\<exists>h evs. fst (syslog_file_channel cfg e devpath s) = Some h
            \<and> trace (snd (syslog_file_channel cfg e devpath s)) = trace s @ evs
            \<and> Dev_initialize devpath OPEN_FLAGS OPEN_MODE (Some h) \<in> set evs
            \<and> Channel h True \<in> set evs
            \<and> h \<in> live (snd (syslog_file_channel cfg e devpath s))))"
  by (simp add: sfc_result sfc_g sfc_trace sfc_live)

theorem syslog_file_channel_result_witness:
  "fst (syslog_file_channel cfg_example env_ok ''/log'' kernel_once) = Some 1
   \<and> g_syslog_file_channel (snd (syslog_file_channel cfg_example env_ok ''/log'' kernel_once))
       = Some 1
   \<and> (\<exists>evs. trace (snd (syslog_file_channel cfg_example env_ok ''/log'' kernel_once)) =
              trace kernel_once @ evs
          \<and> Dev_initialize ''/log'' OPEN_FLAGS OPEN_MODE (Some 1) \<in> set evs
          \<and> Channel 1 True \<in> set evs)
   \<and> 1 \<in> live (snd (syslog_file_channel cfg_example env_ok ''/log'' kernel_once))"
proof -
  let ?R = "syslog_file_channel cfg_example env_ok ''/log'' kernel_once"
  note th = syslog_file_channel_result [of cfg_example env_ok "''/log''" kernel_once]
  have r: "fst ?R = Some 1"
    by (simp add: sfc_result sfc_g kernel_once_next env_ok_def)
  with th have g: "g_syslog_file_channel (snd ?R) = Some 1"
    by simp
  from th r obtain evs where "trace (snd ?R) = trace kernel_once @ evs"
    and "Dev_initialize ''/log'' OPEN_FLAGS OPEN_MODE (Some 1) \<in> set evs"
    and "Channel 1 True \<in> set evs" and "1 \<in> live (snd ?R)"
    by auto
  with r g show ?thesis
    by blast
qed

end
